theory Spec2Isabelle
  imports Main "HOL-Library.Word" "HOL-Library.AList"
begin

text \<open>
  The check handler of the authorization service (\<open>AuthService.Check\<close> and the
  functions that render its responses) and the generic HTTP evaluator
  (\<open>GenericHttp.Call\<close> and \<open>buildRequestBody\<close>), embedded as functions that return
  their effects next to their results, and the properties claimed of them.
\<close>

section \<open>Go values shared by both source files\<close>

text \<open>
  A Go \<open>error\<close> value. \<open>Errorf\<close> is an error the sources build themselves with
  \<open>fmt.Errorf\<close>; \<open>io_EOF\<close> is the end-of-stream error of the standard library;
  \<open>Context_done\<close> is the error reported for a cancelled or expired context;
  \<open>Foreign\<close> stands for any error handed back by a library or another package.
\<close>

datatype error = Errorf string | io_EOF | Context_done | Foreign string

text \<open>
  A \<open>context.Context\<close>, as far as the sources observe it: \<open>ctx_done\<close> tells whether
  the context is already cancelled or past its deadline at the moment it is inspected,
  \<open>ctx_verbose\<close> whether the logger carried by the context is enabled at level 1.
\<close>

record gocontext_Context =
  ctx_done :: bool
  ctx_verbose :: bool

text \<open>
  A function either returns or panics (a nil dereference, an index out of range).
\<close>

datatype 'a outcome = Return 'a | Panic string

subsection \<open>Package strings\<close>

definition strings_HasPrefix :: "string \<Rightarrow> string \<Rightarrow> bool" where
  "strings_HasPrefix s pre = (take (length pre) s = pre)"

text \<open>
  \<open>strings.Index(s, substr)\<close>: the index of the first instance of \<open>substr\<close> in
  \<open>s\<close>; \<open>None\<close> stands for Go's \<open>-1\<close>.
\<close>

primrec strings_Index :: "string \<Rightarrow> string \<Rightarrow> nat option" where
  "strings_Index [] substr = (if substr = [] then Some 0 else None)"
| "strings_Index (c # cs) substr =
     (if strings_HasPrefix (c # cs) substr then Some 0
      else map_option Suc (strings_Index cs substr))"

definition strings_Contains :: "string \<Rightarrow> string \<Rightarrow> bool" where
  "strings_Contains s substr = (strings_Index s substr \<noteq> None)"

lemma strings_Index_bound:
  "strings_Index s sep = Some m \<Longrightarrow> m + length sep \<le> length s"
proof (induction s arbitrary: m)
  case Nil
  then show ?case by (simp split: if_splits)
next
  case (Cons c cs)
  show ?case
  proof (cases "strings_HasPrefix (c # cs) sep")
    case True
    have "length (take (length sep) (c # cs)) \<le> length (c # cs)"
      by simp
    with True Cons.prems show ?thesis
      by (simp add: strings_HasPrefix_def)
  next
    case False
    with Cons.prems obtain k where k: "strings_Index cs sep = Some k" "m = Suc k"
      by auto
    from Cons.IH [OF k(1)] k(2) show ?thesis by simp
  qed
qed

text \<open>
  \<open>strings.Split(s, sep)\<close>: the substrings of \<open>s\<close> between the non-overlapping
  instances of \<open>sep\<close>, found from the left. For an empty separator Go splits after
  each UTF-8 sequence; that branch is written here for single-byte characters and is
  never reached from the sources, which only pass \<open>":"\<close>.
\<close>

function strings_Split :: "string \<Rightarrow> string \<Rightarrow> string list" where
  "strings_Split s sep =
     (if sep = [] then map (\<lambda>c. [c]) s
      else case strings_Index s sep of
             None \<Rightarrow> [s]
           | Some m \<Rightarrow> take m s # strings_Split (drop (m + length sep) s) sep)"
  by pat_completeness auto
termination
proof (relation "measure (\<lambda>(s, sep). length s)")
  show "wf (measure (\<lambda>(s, sep). length s))" by simp
next
  fix s sep :: string and m :: nat
  assume "sep \<noteq> []" and "strings_Index s sep = Some m"
  then have "m + length sep \<le> length s" and "0 < length sep"
    by (simp_all add: strings_Index_bound)
  then have "length s - (m + length sep) < length s"
    by arith
  then show "((drop (m + length sep) s, sep), (s, sep)) \<in> measure (\<lambda>(s, sep). length s)"
    by simp
qed

declare strings_Split.simps [simp del]

primrec strings_Join :: "string list \<Rightarrow> string \<Rightarrow> string" where
  "strings_Join [] sep = []"
| "strings_Join (e # es) sep = (if es = [] then e else e @ sep @ strings_Join es sep)"

section \<open>pkg/service: the Check handler\<close>

subsection \<open>Result codes and HTTP status codes\<close>

text \<open>
  \<open>rpc.Code\<close> and \<open>envoy_type.StatusCode\<close> are \<open>int32\<close> enumerations of the
  imported libraries; the constants carry the values of \<open>google.rpc.Code\<close> and of
  the HTTP status codes. \<open>StatusCode_Empty\<close> is the zero value of the status type.
\<close>

type_synonym rpc_Code = "32 word"
type_synonym StatusCode = "32 word"

definition rpc_OK :: rpc_Code where "rpc_OK = 0"
definition rpc_NOT_FOUND :: rpc_Code where "rpc_NOT_FOUND = 5"
definition rpc_PERMISSION_DENIED :: rpc_Code where "rpc_PERMISSION_DENIED = 7"
definition rpc_FAILED_PRECONDITION :: rpc_Code where "rpc_FAILED_PRECONDITION = 9"
definition rpc_UNAUTHENTICATED :: rpc_Code where "rpc_UNAUTHENTICATED = 16"

definition StatusCode_Empty :: StatusCode where "StatusCode_Empty = 0"
definition StatusCode_BadRequest :: StatusCode where "StatusCode_BadRequest = 400"
definition StatusCode_Unauthorized :: StatusCode where "StatusCode_Unauthorized = 401"
definition StatusCode_Forbidden :: StatusCode where "StatusCode_Forbidden = 403"
definition StatusCode_NotFound :: StatusCode where "StatusCode_NotFound = 404"

definition X_EXT_AUTH_REASON_HEADER :: string where
  "X_EXT_AUTH_REASON_HEADER = ''X-Ext-Auth-Reason''"

definition RESPONSE_MESSAGE_INVALID_REQUEST :: string where
  "RESPONSE_MESSAGE_INVALID_REQUEST = ''Invalid request''"

definition RESPONSE_MESSAGE_SERVICE_NOT_FOUND :: string where
  "RESPONSE_MESSAGE_SERVICE_NOT_FOUND = ''Service not found''"

definition statusCodeMapping :: "rpc_Code \<rightharpoonup> StatusCode" where
  "statusCodeMapping = map_of
     [(rpc_FAILED_PRECONDITION, StatusCode_BadRequest),
      (rpc_NOT_FOUND, StatusCode_NotFound),
      (rpc_UNAUTHENTICATED, StatusCode_Unauthorized),
      (rpc_PERMISSION_DENIED, StatusCode_Forbidden)]"

text \<open>
  Indexing a Go map, \<open>m[k]\<close>: the stored value, or the zero value of the value type
  when the key is missing. It never panics.
\<close>

definition map_index :: "('k \<rightharpoonup> 'v::zero) \<Rightarrow> 'k \<Rightarrow> 'v" where
  "map_index m k = (case m k of None \<Rightarrow> 0 | Some v \<Rightarrow> v)"

subsection \<open>Requests, results and responses\<close>

text \<open>
  The inbound request, along the path \<open>req.Attributes.Request.Http.Host\<close>. Each step
  but the last is a pointer, \<open>None\<close> when nil.
\<close>

record HttpRequest =
  Host :: string

record AttributeContext_Request =
  Http :: "HttpRequest option"

record AttributeContext =
  Request :: "AttributeContext_Request option"

record CheckRequest =
  Attributes :: "AttributeContext option"

text \<open>
  A Go \<open>map[string]string\<close> that is ranged over once is given by its entries in the
  order that \<open>range\<close> visits them; Go fixes no order, so every order of the entries is
  a possible value. A slice that may be nil is an \<open>option\<close>.
\<close>

type_synonym headerMap = "(string \<times> string) list"

text \<open>
  Modelled from the spec: \<open>AuthResult\<close> and its method \<open>Success\<close> are declared in a
  file of the package that is not at hand. The result carries a code, a message, a
  sequence of response headers and a metadata mapping; \<open>Success\<close> holds iff the code
  is the canonical allow code.
\<close>

record 'md AuthResult =
  Code :: rpc_Code
  Message :: string
  Headers :: "headerMap list option"
  Metadata :: "'md option"

definition Success :: "'md AuthResult \<Rightarrow> bool" where
  "Success result = (AuthResult.Code result = rpc_OK)"

record HeaderValue =
  Key :: string
  Value :: string

record HeaderValueOption =
  Header :: HeaderValue

record HttpStatus =
  Code :: StatusCode

record DeniedHttpResponse =
  Status :: HttpStatus
  Headers :: "HeaderValueOption list"

record OkHttpResponse =
  Headers :: "HeaderValueOption list"

record rpcstatus_Status =
  Code :: "32 word"

datatype CheckResponse_HttpResponse =
    CheckResponse_DeniedResponse DeniedHttpResponse
  | CheckResponse_OkResponse OkHttpResponse

record 'st CheckResponse =
  Status :: rpcstatus_Status
  HttpResponse :: CheckResponse_HttpResponse
  DynamicMetadata :: "'st option"

subsection \<open>Rendering headers\<close>

text \<open>
  The inner loop of \<open>buildResponseHeaders\<close>, over one map, and the outer loop, over
  the slice of maps; both append to \<open>responseHeaders\<close>. Ranging over a nil slice runs
  no iteration.
\<close>

primrec range_headerMap ::
  "headerMap \<Rightarrow> HeaderValueOption list \<Rightarrow> HeaderValueOption list" where
  "range_headerMap [] responseHeaders = responseHeaders"
| "range_headerMap (kv # rest) responseHeaders =
     range_headerMap rest
       (responseHeaders @ [\<lparr>Header = \<lparr>Key = fst kv, Value = snd kv\<rparr>\<rparr>])"

primrec range_headers ::
  "headerMap list \<Rightarrow> HeaderValueOption list \<Rightarrow> HeaderValueOption list" where
  "range_headers [] responseHeaders = responseHeaders"
| "range_headers (headerMap # rest) responseHeaders =
     range_headers rest (range_headerMap headerMap responseHeaders)"

definition buildResponseHeaders :: "headerMap list option \<Rightarrow> HeaderValueOption list" where
  "buildResponseHeaders headers =
     (case headers of None \<Rightarrow> [] | Some hs \<Rightarrow> range_headers hs [])"

definition buildResponseHeadersWithReason ::
  "string \<Rightarrow> headerMap list option \<Rightarrow> HeaderValueOption list" where
  "buildResponseHeadersWithReason authReason extraHeaders =
     (let headers = (case extraHeaders of Some hs \<Rightarrow> hs | None \<Rightarrow> []);
          headers = headers @ [[(X_EXT_AUTH_REASON_HEADER, authReason)]]
      in buildResponseHeaders (Some headers))"

subsection \<open>Responses\<close>

definition deniedResponse :: "'md AuthResult \<Rightarrow> 'st CheckResponse" where
  "deniedResponse authResult =
     (let code = AuthResult.Code authResult
      in \<lparr>CheckResponse.Status = \<lparr>rpcstatus_Status.Code = code\<rparr>,
          HttpResponse = CheckResponse_DeniedResponse
            \<lparr>DeniedHttpResponse.Status = \<lparr>HttpStatus.Code = map_index statusCodeMapping code\<rparr>,
             DeniedHttpResponse.Headers =
               buildResponseHeadersWithReason (Message authResult) (AuthResult.Headers authResult)\<rparr>,
          DynamicMetadata = None\<rparr>)"

text \<open>
  The cache is an interface of package \<open>cache\<close>; the handler calls only \<open>Get\<close>, which
  yields the configuration stored under a key, or nil.
\<close>

record 'cfg Cache =
  Get :: "string \<Rightarrow> 'cfg option"

record 'cfg AuthService =
  Cache :: "'cfg Cache"

text \<open>
  Modelled from the spec: \<open>NewAuthPipeline\<close> lives in a file of the package that is
  not at hand. It constructs a fresh pipeline bound to the context, the inbound request
  and the resolved configuration.
\<close>

record 'cfg AuthPipeline =
  Pipeline_ctx :: gocontext_Context
  Pipeline_req :: CheckRequest
  Pipeline_config :: 'cfg

definition NewAuthPipeline ::
  "gocontext_Context \<Rightarrow> CheckRequest \<Rightarrow> 'cfg \<Rightarrow> 'cfg AuthPipeline" where
  "NewAuthPipeline ctx req apiConfig =
     \<lparr>Pipeline_ctx = ctx, Pipeline_req = req, Pipeline_config = apiConfig\<rparr>"

text \<open>
  What the handler calls and does not define: \<open>json.MarshalIndent\<close> on the request,
  the pipeline's \<open>Evaluate\<close>, and \<open>structpb.NewStruct\<close> on the result's metadata.
  They are parameters of the model; every theorem below holds for all of them.
\<close>

record ('cfg, 'md, 'st) service_env =
  json_MarshalIndent :: "CheckRequest \<Rightarrow> error + string"
  Evaluate :: "'cfg AuthPipeline \<Rightarrow> 'md AuthResult"
  structpb_NewStruct :: "'md option \<Rightarrow> error + 'st"

text \<open>
  The effects of the handler, in the order they happen: the two \<open>Info\<close> log lines,
  the \<open>Error\<close> log line of \<open>successResponse\<close>, each call of the cache's \<open>Get\<close> with
  its key, the construction of the pipeline and its evaluation.
\<close>

datatype ('cfg, 'md) service_event =
    Log_Info_reqJSON string
  | Log_Info_result "'md AuthResult"
  | Log_Error error "'md option"
  | Cache_Get string
  | Pipeline_New "'cfg AuthPipeline"
  | Pipeline_Evaluate "'cfg AuthPipeline"

definition successResponse ::
  "('cfg, 'md, 'st) service_env \<Rightarrow> 'md AuthResult \<Rightarrow>
     ('cfg, 'md) service_event list \<times> 'st CheckResponse" where
  "successResponse env authResult =
     (let (log, dynamicMetadata) =
            (case structpb_NewStruct env (Metadata authResult) of
               Inl err \<Rightarrow> ([Log_Error err (Metadata authResult)], None)
             | Inr st \<Rightarrow> ([], Some st))
      in (log,
          \<lparr>CheckResponse.Status = \<lparr>rpcstatus_Status.Code = rpc_OK\<rparr>,
           HttpResponse = CheckResponse_OkResponse
             \<lparr>OkHttpResponse.Headers = buildResponseHeaders (AuthResult.Headers authResult)\<rparr>,
           DynamicMetadata = dynamicMetadata\<rparr>))"

text \<open>
  \<open>req.Attributes.Request.Http.Host\<close>: \<open>None\<close> when a pointer on the path is nil,
  where the Go expression panics.
\<close>

definition request_Host :: "CheckRequest \<Rightarrow> string option" where
  "request_Host req =
     (case Attributes req of
        None \<Rightarrow> None
      | Some attributes \<Rightarrow>
          (case Request attributes of
             None \<Rightarrow> None
           | Some request \<Rightarrow>
               (case Http request of
                  None \<Rightarrow> None
                | Some http \<Rightarrow> Some (Host http))))"

text \<open>
  The lookup step of \<open>Check\<close>, as a function of the host: the statements from
  \<open>apiConfig = self.Cache.Get(host)\<close> to the end of the retry. It yields the calls of
  \<open>Get\<close> it made, in order, and the value of \<open>apiConfig\<close> after the step (\<open>None\<close>
  is nil). \<open>splitHost[0]\<close> panics on an empty slice.
\<close>

definition Check_lookup ::
  "'cfg AuthService \<Rightarrow> string \<Rightarrow> ('cfg, 'md) service_event list \<times> 'cfg option outcome" where
  "Check_lookup self host =
     (let apiConfig = Get (Cache self) host;
          tr = [Cache_Get host]
      in if apiConfig = None \<and> strings_Contains host '':''
         then (let splitHost = strings_Split host '':''
               in case splitHost of
                    [] \<Rightarrow> (tr, Panic ''index out of range'')
                  | splitHost0 # _ \<Rightarrow>
                      (tr @ [Cache_Get splitHost0], Return (Get (Cache self) splitHost0)))
         else (tr, Return apiConfig))"

text \<open>
  \<open>AuthService.Check\<close>. The Go function returns the response and a nil error on every
  path that returns; the model returns the effects and the response, or the panic.
\<close>

definition Check ::
  "('cfg, 'md, 'st) service_env \<Rightarrow> 'cfg AuthService \<Rightarrow> gocontext_Context \<Rightarrow> CheckRequest \<Rightarrow>
     ('cfg, 'md) service_event list \<times> 'st CheckResponse outcome" where
  "Check env self ctx req =
     (case json_MarshalIndent env req of
        Inl err \<Rightarrow>
          ([], Return (deniedResponse
             (\<lparr>AuthResult.Code = rpc_FAILED_PRECONDITION,
               Message = RESPONSE_MESSAGE_INVALID_REQUEST,
               AuthResult.Headers = None, Metadata = None\<rparr> :: 'md AuthResult)))
      | Inr reqJSON \<Rightarrow>
          (let tr = [Log_Info_reqJSON reqJSON] in
           case request_Host req of
             None \<Rightarrow> (tr, Panic ''nil pointer dereference'')
           | Some host \<Rightarrow>
               (case Check_lookup self host of
                  (gets, Panic p) \<Rightarrow> (tr @ gets, Panic p)
                | (gets, Return apiConfig) \<Rightarrow>
                    (let tr = tr @ gets in
                     case apiConfig of
                       None \<Rightarrow>
                         (tr, Return (deniedResponse
                            (\<lparr>AuthResult.Code = rpc_NOT_FOUND,
                              Message = RESPONSE_MESSAGE_SERVICE_NOT_FOUND,
                              AuthResult.Headers = None, Metadata = None\<rparr> :: 'md AuthResult)))
                     | Some config \<Rightarrow>
                         (let pipeline = NewAuthPipeline ctx req config;
                              result = Evaluate env pipeline;
                              tr = tr @ [Pipeline_New pipeline, Pipeline_Evaluate pipeline,
                                         Log_Info_result result]
                          in if Success result
                             then (let (log, resp) = successResponse env result
                                   in (tr @ log, Return resp))
                             else (tr, Return (deniedResponse result)))))))"

subsection \<open>Observations on responses and effects\<close>

definition denied_status :: "'st CheckResponse \<Rightarrow> StatusCode option" where
  "denied_status resp =
     (case HttpResponse resp of
        CheckResponse_DeniedResponse d \<Rightarrow> Some (HttpStatus.Code (DeniedHttpResponse.Status d))
      | CheckResponse_OkResponse ok \<Rightarrow> None)"

definition denied_headers :: "'st CheckResponse \<Rightarrow> (string \<times> string) list option" where
  "denied_headers resp =
     (case HttpResponse resp of
        CheckResponse_DeniedResponse d \<Rightarrow>
          Some (map (\<lambda>h. (Key (Header h), Value (Header h))) (DeniedHttpResponse.Headers d))
      | CheckResponse_OkResponse ok \<Rightarrow> None)"

primrec cache_lookups :: "('cfg, 'md) service_event list \<Rightarrow> string list" where
  "cache_lookups [] = []"
| "cache_lookups (e # es) =
     (case e of Cache_Get k \<Rightarrow> k # cache_lookups es | _ \<Rightarrow> cache_lookups es)"

primrec pipeline_configs :: "('cfg, 'md) service_event list \<Rightarrow> 'cfg list" where
  "pipeline_configs [] = []"
| "pipeline_configs (e # es) =
     (case e of
        Pipeline_New p \<Rightarrow> Pipeline_config p # pipeline_configs es
      | _ \<Rightarrow> pipeline_configs es)"

primrec pipeline_runs :: "('cfg, 'md) service_event list \<Rightarrow> nat" where
  "pipeline_runs [] = 0"
| "pipeline_runs (e # es) =
     (case e of
        Pipeline_New p \<Rightarrow> Suc (pipeline_runs es)
      | Pipeline_Evaluate p \<Rightarrow> Suc (pipeline_runs es)
      | _ \<Rightarrow> pipeline_runs es)"

text \<open>The substring of a host before its first colon.\<close>

definition before_colon :: "string \<Rightarrow> string" where
  "before_colon host = takeWhile (\<lambda>c. c \<noteq> CHR '':'') host"

section \<open>pkg/metadata: the generic HTTP evaluator\<close>

subsection \<open>Configuration, requests and responses\<close>

text \<open>
  \<open>json.JSONProperty\<close> and the evaluator's configuration. \<open>'jv\<close> is
  \<open>json.JSONValue\<close>, a value template; \<open>'cred\<close> is the embedded credential source
  \<open>auth.AuthCredentials\<close>. \<open>Body\<close> and \<open>AuthCredentials\<close> may be nil.
\<close>

record 'jv JSONProperty =
  Name :: string
  Value :: 'jv

record ('jv, 'cred) GenericHttp =
  Endpoint :: string
  Method :: string
  Body :: "'jv option"
  Parameters :: "'jv JSONProperty list"
  Headers :: "'jv JSONProperty list"
  ContentType :: string
  SharedSecret :: string
  AuthCredentials :: "'cred option"

text \<open>The pipeline, an interface of package \<open>auth\<close>, as far as \<open>Call\<close> uses it.\<close>

record auth_AuthPipeline =
  GetAuthorizationJSON :: string

text \<open>
  An \<open>http.Header\<close> maps canonical keys to lists of values; it is kept as an
  association list. A request has a method, a URL, a header and a body, \<open>None\<close> when
  there is no body.
\<close>

type_synonym http_Header = "(string \<times> string list) list"

record http_Request =
  Req_Method :: string
  Req_URL :: string
  Req_Header :: http_Header
  Req_Body :: "string option"

text \<open>
  The body of a response as its two readers see it. \<open>Body_items\<close> is what a
  \<open>json.Decoder\<close> on the body meets, value by value: \<open>Decodes obj\<close> is a value that
  \<open>Decode\<close> stores into a \<open>map[string]interface{}\<close> as \<open>obj\<close>; \<open>Fails err has_more\<close>
  is input on which \<open>Decode\<close> fails with \<open>err\<close> (a syntax error, a value that is not
  an object, a read error), \<open>has_more\<close> telling what \<open>More\<close> answers in front of it
  (false in front of a closing bracket or brace and on a read error). At the end of the items
  the stream is at its end. \<open>Body_ReadAll\<close> is what \<open>io.ReadAll\<close> yields.
\<close>

datatype 'obj decoder_item = Decodes 'obj | Fails error bool

record 'obj http_Body =
  Body_items :: "'obj decoder_item list"
  Body_ReadAll :: "error + string"

record 'obj http_Response =
  Resp_Header :: http_Header
  Resp_Body :: "'obj http_Body"

text \<open>
  What \<open>Call\<close> returns as \<open>interface{}\<close>: nil, one decoded object, the slice of decoded
  objects, or the body as a string.
\<close>

datatype 'obj call_value = Nil_value | Object 'obj | Elements "'obj list" | Text string

text \<open>
  What the evaluator calls and does not define. From package \<open>json\<close> of the repository:
  \<open>ReplaceJSONPlaceholders\<close>, \<open>ResolveFor\<close>, \<open>StringifyJSON\<close>. From the standard
  library: \<open>json.Marshal\<close> on the parameter map, \<open>url.Values.Encode\<close>,
  \<open>fmt.Sprintf("%s", v)\<close>, \<open>textproto.CanonicalMIMEHeaderKey\<close>, the check of method and
  URL that \<open>http.NewRequestWithContext\<close> makes, and the round trip of
  \<open>http.DefaultClient.Do\<close>. \<open>place_credential\<close> is how a credential source attaches a
  credential to the URL and header of a request. They are parameters of the model; every
  theorem below holds for all of them.
\<close>

record ('jv, 'val, 'cred, 'obj) http_env =
  ReplaceJSONPlaceholders :: "string \<Rightarrow> string \<Rightarrow> string"
  ResolveFor :: "'jv \<Rightarrow> string \<Rightarrow> 'val"
  StringifyJSON :: "'val \<Rightarrow> error + string"
  gojson_Marshal :: "(string \<times> 'val) list \<Rightarrow> error + string"
  url_Values_Encode :: "(string \<times> string list) list \<Rightarrow> string"
  Sprintf_s :: "'val \<Rightarrow> string"
  CanonicalMIMEHeaderKey :: "string \<Rightarrow> string"
  request_error :: "string \<Rightarrow> string \<Rightarrow> error option"
  place_credential :: "'cred \<Rightarrow> string \<Rightarrow> string \<times> http_Header \<Rightarrow> error + string \<times> http_Header"
  DefaultClient_Do :: "http_Request \<Rightarrow> error + 'obj http_Response"

text \<open>
  The effects of \<open>Call\<close>, in the order they happen: the log line at verbosity 1 (method,
  URL, header, and the body when there is one), the round trip with the request it sends,
  and each deferred \<open>resp.Body.Close()\<close>.
\<close>

datatype http_event =
    Log_sending_request string string http_Header "string option"
  | Do http_Request
  | Body_Close

subsection \<open>Library functions\<close>

text \<open>\<open>Header.Set\<close> replaces the values under the canonical form of the key.\<close>

definition Header_Set ::
  "('jv, 'val, 'cred, 'obj) http_env \<Rightarrow> http_Header \<Rightarrow> string \<Rightarrow> string \<Rightarrow> http_Header" where
  "Header_Set env header key v = AList.update (CanonicalMIMEHeaderKey env key) [v] header"

text \<open>\<open>Header.Values\<close>: the values under the canonical form of the key, nil when absent.\<close>

definition Header_Values ::
  "('jv, 'val, 'cred, 'obj) http_env \<Rightarrow> http_Header \<Rightarrow> string \<Rightarrow> string list" where
  "Header_Values env header key =
     (case map_of header (CanonicalMIMEHeaderKey env key) of None \<Rightarrow> [] | Some vs \<Rightarrow> vs)"

text \<open>\<open>header[key]\<close>, the plain map index: the values stored under the key as given.\<close>

definition Header_index :: "http_Header \<Rightarrow> string \<Rightarrow> string list" where
  "Header_index header key = (case map_of header key of None \<Rightarrow> [] | Some vs \<Rightarrow> vs)"

text \<open>
  \<open>http.NewRequestWithContext\<close>: an error when the method or the URL is refused, else a
  request with that method (\<open>GET\<close> for the empty string), URL and body and an empty
  header.
\<close>

definition http_NewRequestWithContext ::
  "('jv, 'val, 'cred, 'obj) http_env \<Rightarrow> gocontext_Context \<Rightarrow> string \<Rightarrow> string \<Rightarrow> string option \<Rightarrow>
     error + http_Request" where
  "http_NewRequestWithContext env ctx method url body =
     (case request_error env method url of
        Some err \<Rightarrow> Inl err
      | None \<Rightarrow>
          Inr \<lparr>Req_Method = (if method = [] then ''GET'' else method), Req_URL = url,
               Req_Header = [], Req_Body = body\<rparr>)"

text \<open>
  Modelled from the spec: \<open>BuildRequestWithCredentials\<close> belongs to package \<open>auth\<close> of
  the repository, which is not at hand. It builds the request through the
  credential-injection path: the plain request, with an authorization credential derived
  from the shared secret attached to it.
\<close>

definition BuildRequestWithCredentials ::
  "('jv, 'val, 'cred, 'obj) http_env \<Rightarrow> 'cred \<Rightarrow> gocontext_Context \<Rightarrow> string \<Rightarrow> string \<Rightarrow> string \<Rightarrow>
     string option \<Rightarrow> error + http_Request" where
  "BuildRequestWithCredentials env creds ctx endpoint method credentialValue body =
     (case http_NewRequestWithContext env ctx method endpoint body of
        Inl err \<Rightarrow> Inl err
      | Inr req \<Rightarrow>
          (case place_credential env creds credentialValue (Req_URL req, Req_Header req) of
             Inl err \<Rightarrow> Inl err
           | Inr (url, header) \<Rightarrow> Inr (req\<lparr>Req_URL := url, Req_Header := header\<rparr>)))"

text \<open>
  Modelled from the spec: \<open>CheckContext\<close> belongs to package \<open>context\<close> of the
  repository, which is not at hand. If the scope is already cancelled or expired it
  reports a failure, otherwise nil.
\<close>

definition CheckContext :: "gocontext_Context \<Rightarrow> error option" where
  "CheckContext ctx = (if ctx_done ctx then Some Context_done else None)"

text \<open>
  \<open>Decoder.More\<close> in front of the remaining items, and the loop of \<open>Call\<close> that decodes
  one value, appends it to \<open>elements\<close> and goes on while \<open>More\<close> holds. \<open>Decode\<close> at the
  end of the stream fails with \<open>io.EOF\<close>.
\<close>

fun decoder_More :: "'obj decoder_item list \<Rightarrow> bool" where
  "decoder_More [] = False"
| "decoder_More (Decodes obj # rest) = True"
| "decoder_More (Fails err has_more # rest) = has_more"

fun decode_loop :: "'obj decoder_item list \<Rightarrow> 'obj list \<Rightarrow> error + 'obj list" where
  "decode_loop [] elements = Inl io_EOF"
| "decode_loop (Fails err has_more # rest) elements = Inl err"
| "decode_loop (Decodes claims # rest) elements =
     (let elements = elements @ [claims]
      in if \<not> decoder_More rest then Inr elements else decode_loop rest elements)"

subsection \<open>The evaluator\<close>

text \<open>
  The loop of \<open>buildRequestBody\<close> that fills \<open>data\<close> from the parameters (a later
  parameter of the same name replaces the earlier value), and the loop over \<open>data\<close> that
  fills the form. The entries of \<open>data\<close> are visited in the order of the list; Go fixes
  no order, and the outcome does not depend on it but for the order of the entries handed
  to \<open>Encode\<close>, which sorts them by key.
\<close>

primrec range_Parameters ::
  "('jv, 'val, 'cred, 'obj) http_env \<Rightarrow> string \<Rightarrow> 'jv JSONProperty list \<Rightarrow> (string \<times> 'val) list \<Rightarrow>
     (string \<times> 'val) list" where
  "range_Parameters env authData [] data = data"
| "range_Parameters env authData (param # rest) data =
     range_Parameters env authData rest
       (AList.update (Name param) (ResolveFor env (JSONProperty.Value param) authData) data)"

primrec range_data ::
  "('jv, 'val, 'cred, 'obj) http_env \<Rightarrow> (string \<times> 'val) list \<Rightarrow> (string \<times> string list) list \<Rightarrow>
     error + (string \<times> string list) list" where
  "range_data env [] formData = Inr formData"
| "range_data env (kv # rest) formData =
     (case StringifyJSON env (snd kv) of
        Inl err \<Rightarrow> Inl (Errorf ''failed to encode http request'')
      | Inr valueAsStr \<Rightarrow> range_data env rest (AList.update (fst kv) [valueAsStr] formData))"

definition buildRequestBody ::
  "('jv, 'val, 'cred, 'obj) http_env \<Rightarrow> ('jv, 'cred) GenericHttp \<Rightarrow> string \<Rightarrow> error + string" where
  "buildRequestBody env h authData =
     (case Body h of
        Some body \<Rightarrow>
          (case StringifyJSON env (ResolveFor env body authData) of
             Inl err \<Rightarrow> Inl (Errorf ''failed to encode http request'')
           | Inr b \<Rightarrow> Inr b)
      | None \<Rightarrow>
          (let data = range_Parameters env authData (Parameters h) []
           in if ContentType h = ''application/x-www-form-urlencoded''
              then (case range_data env data [] of
                      Inl err \<Rightarrow> Inl err
                    | Inr formData \<Rightarrow> Inr (url_Values_Encode env formData))
              else if ContentType h = ''application/json''
              then (case gojson_Marshal env data of
                      Inl err \<Rightarrow> Inl err
                    | Inr dataJSON \<Rightarrow> Inr dataJSON)
              else Inl (Errorf ''unsupported content-type'')))"

text \<open>The loop of \<open>Call\<close> that sets the configured headers on the request.\<close>

primrec range_Headers ::
  "('jv, 'val, 'cred, 'obj) http_env \<Rightarrow> string \<Rightarrow> 'jv JSONProperty list \<Rightarrow> http_Request \<Rightarrow> http_Request" where
  "range_Headers env authJSON [] req = req"
| "range_Headers env authJSON (header # rest) req =
     range_Headers env authJSON rest
       (req\<lparr>Req_Header := Header_Set env (Req_Header req) (Name header)
               (Sprintf_s env (ResolveFor env (JSONProperty.Value header) authJSON))\<rparr>)"

text \<open>
  \<open>GenericHttp.Call\<close>, in the order of its statements. First the switch on the method:
  the content type and the body of the request, or the error.
\<close>

definition Call_switch ::
  "('jv, 'val, 'cred, 'obj) http_env \<Rightarrow> ('jv, 'cred) GenericHttp \<Rightarrow> string \<Rightarrow>
     error + string \<times> string option" where
  "Call_switch env h authJSON =
     (let method = Method h
      in if method = ''GET'' then Inr (''text/plain'', None)
         else if method = ''POST''
         then (case buildRequestBody env h authJSON of
                 Inl err \<Rightarrow> Inl err
               | Inr b \<Rightarrow> Inr (ContentType h, Some b))
         else Inl (Errorf ''unsupported method''))"

text \<open>
  Then the request: built with the credentials when a credential source is configured,
  plainly otherwise; the configured headers set on it one by one; and the content type
  set last.
\<close>

definition Call_request ::
  "('jv, 'val, 'cred, 'obj) http_env \<Rightarrow> ('jv, 'cred) GenericHttp \<Rightarrow> gocontext_Context \<Rightarrow> string \<Rightarrow>
     string \<Rightarrow> string \<Rightarrow> string option \<Rightarrow> error + http_Request" where
  "Call_request env h ctx authJSON endpoint contentType requestBody =
     (case (case AuthCredentials h of
              Some creds \<Rightarrow>
                BuildRequestWithCredentials env creds ctx endpoint (Method h)
                  (SharedSecret h) requestBody
            | None \<Rightarrow> http_NewRequestWithContext env ctx (Method h) endpoint requestBody) of
        Inl err \<Rightarrow> Inl err
      | Inr req \<Rightarrow>
          (let req = range_Headers env authJSON (GenericHttp.Headers h) req
           in Inr (req\<lparr>Req_Header :=
                      Header_Set env (Req_Header req) ''Content-Type'' contentType\<rparr>)))"

text \<open>
  Last the response: decoded value by value when its content type mentions
  \<open>application/json\<close>, read as text otherwise. The deferred \<open>resp.Body.Close()\<close> runs
  once on the first path and twice on the second.
\<close>

definition Call_response :: "'obj http_Response \<Rightarrow> http_event list \<times> (error + 'obj call_value)" where
  "Call_response resp =
     (if strings_Contains
           (strings_Join (Header_index (Resp_Header resp) ''Content-Type'') '';'')
           ''application/json''
      then (case decode_loop (Body_items (Resp_Body resp)) [] of
              Inl err \<Rightarrow> ([Body_Close], Inl err)
            | Inr elements \<Rightarrow>
                ([Body_Close],
                 if length elements > 1 then Inr (Elements elements)
                 else if length elements = 1 then Inr (Object (elements ! 0))
                 else Inr Nil_value))
      else (case Body_ReadAll (Resp_Body resp) of
              Inl err \<Rightarrow> ([Body_Close, Body_Close], Inl err)
            | Inr str \<Rightarrow> ([Body_Close, Body_Close], Inr (Text str))))"

text \<open>The whole function: the effects, and the error or the value returned.\<close>

definition Call ::
  "('jv, 'val, 'cred, 'obj) http_env \<Rightarrow> ('jv, 'cred) GenericHttp \<Rightarrow> auth_AuthPipeline \<Rightarrow>
     gocontext_Context \<Rightarrow> http_event list \<times> (error + 'obj call_value)" where
  "Call env h pipeline ctx =
     (case CheckContext ctx of
        Some err \<Rightarrow> ([], Inl err)
      | None \<Rightarrow>
          (let authJSON = GetAuthorizationJSON pipeline;
               endpoint = ReplaceJSONPlaceholders env (Endpoint h) authJSON
           in case Call_switch env h authJSON of
                Inl err \<Rightarrow> ([], Inl err)
              | Inr (contentType, requestBody) \<Rightarrow>
                  (case Call_request env h ctx authJSON endpoint contentType requestBody of
                     Inl err \<Rightarrow> ([], Inl err)
                   | Inr req \<Rightarrow>
                       (let tr = (if ctx_verbose ctx
                                  then [Log_sending_request (Method h) endpoint (Req_Header req)
                                          requestBody]
                                  else []);
                            tr = tr @ [Do req]
                        in case DefaultClient_Do env req of
                             Inl err \<Rightarrow> (tr, Inl err)
                           | Inr resp \<Rightarrow>
                               (let (closes, result) = Call_response resp
                                in (tr @ closes, result))))))"

text \<open>The requests handed to the HTTP client, in order.\<close>

primrec requests_sent :: "http_event list \<Rightarrow> http_Request list" where
  "requests_sent [] = []"
| "requests_sent (e # es) =
     (case e of Do req \<Rightarrow> req # requests_sent es | _ \<Rightarrow> requests_sent es)"

subsection \<open>Concrete inputs\<close>

definition request_for_host :: "string \<Rightarrow> CheckRequest" where
  "request_for_host host =
     \<lparr>Attributes = Some \<lparr>Request = Some \<lparr>Http = Some \<lparr>Host = host\<rparr>\<rparr>\<rparr>\<rparr>"

definition denying_result :: "unit AuthResult" where
  "denying_result =
     \<lparr>AuthResult.Code = rpc_PERMISSION_DENIED, Message = ''Unauthorized'',
      AuthResult.Headers = None, Metadata = None\<rparr>"

definition serializing_env :: "(nat, unit, unit) service_env" where
  "serializing_env =
     \<lparr>json_MarshalIndent = (\<lambda>req. Inr ''{}''),
      Evaluate = (\<lambda>pipeline. denying_result),
      structpb_NewStruct = (\<lambda>md. Inr ())\<rparr>"

definition unserializable_env :: "(nat, unit, unit) service_env" where
  "unserializable_env =
     \<lparr>json_MarshalIndent = (\<lambda>req. Inl (Foreign ''json: unsupported value: NaN'')),
      Evaluate = (\<lambda>pipeline. denying_result),
      structpb_NewStruct = (\<lambda>md. Inr ())\<rparr>"

definition service_with :: "(string \<times> nat) list \<Rightarrow> nat AuthService" where
  "service_with entries = \<lparr>Cache = \<lparr>Get = map_of entries\<rparr>\<rparr>"

definition live_ctx :: gocontext_Context where
  "live_ctx = \<lparr>ctx_done = False, ctx_verbose = False\<rparr>"


definition result_with_code :: "rpc_Code \<Rightarrow> unit AuthResult" where
  "result_with_code code =
     \<lparr>AuthResult.Code = code, Message = ''denied'', AuthResult.Headers = None, Metadata = None\<rparr>"

definition challenge_result :: "headerMap list option \<Rightarrow> unit AuthResult" where
  "challenge_result headers =
     \<lparr>AuthResult.Code = rpc_UNAUTHENTICATED, Message = ''credential not found'',
      AuthResult.Headers = headers, Metadata = None\<rparr>"

definition respond_with ::
  "error + (string \<times> int) list http_Response \<Rightarrow> (string, string, unit, (string \<times> int) list) http_env" where
  "respond_with answer =
     \<lparr>ReplaceJSONPlaceholders = (\<lambda>template authJSON. template),
      ResolveFor = (\<lambda>v authJSON. v),
      StringifyJSON = (\<lambda>v. Inr v),
      gojson_Marshal = (\<lambda>data. Inr ''{}''),
      url_Values_Encode = (\<lambda>form. ''''),
      Sprintf_s = (\<lambda>v. v),
      CanonicalMIMEHeaderKey = (\<lambda>key. key),
      request_error = (\<lambda>method url. None),
      place_credential = (\<lambda>creds secret (url, header).
         Inr (url, AList.update ''Authorization'' [''Bearer '' @ secret] header)),
      DefaultClient_Do = (\<lambda>req. answer)\<rparr>"

definition json_response :: "(string \<times> int) list decoder_item list \<Rightarrow> (string \<times> int) list http_Response" where
  "json_response items =
     \<lparr>Resp_Header = [(''Content-Type'', [''application/json''])],
      Resp_Body = \<lparr>Body_items = items, Body_ReadAll = Inr ''''\<rparr>\<rparr>"

definition evaluator :: "string \<Rightarrow> string \<Rightarrow> (string, unit) GenericHttp" where
  "evaluator method contentType =
     \<lparr>Endpoint = ''http://metadata.local/info'', Method = method, Body = None,
      Parameters = [\<lparr>Name = ''user'', JSONProperty.Value = ''{auth.identity.sub}''\<rparr>],
      GenericHttp.Headers = [\<lparr>Name = ''Content-Type'', JSONProperty.Value = ''application/xml''\<rparr>,
                 \<lparr>Name = ''X-Trace'', JSONProperty.Value = ''1''\<rparr>],
      ContentType = contentType, SharedSecret = ''s3cret'', AuthCredentials = None\<rparr>"

definition pipeline0 :: auth_AuthPipeline where
  "pipeline0 = \<lparr>GetAuthorizationJSON = ''{}''\<rparr>"

definition done_ctx :: gocontext_Context where
  "done_ctx = \<lparr>ctx_done = True, ctx_verbose = False\<rparr>"



section \<open>Properties of the Check handler\<close>

subsection \<open>Auxiliary facts\<close>

lemma strings_Index_colon:
  "strings_Index s '':'' =
     (if CHR '':'' \<in> set s then Some (length (before_colon s)) else None)"
  by (induction s) (auto simp: strings_HasPrefix_def before_colon_def)

lemma strings_Contains_colon: "strings_Contains s '':'' \<longleftrightarrow> CHR '':'' \<in> set s"
  by (simp add: strings_Contains_def strings_Index_colon)

lemma strings_Split_colon:
  assumes "CHR '':'' \<in> set s"
  shows "\<exists>rest. strings_Split s '':'' = before_colon s # rest"
proof -
  have "take (length (before_colon s)) s = before_colon s"
    unfolding before_colon_def by (metis takeWhile_eq_take)
  with assms show ?thesis
    by (subst strings_Split.simps) (simp add: strings_Index_colon)
qed

lemma range_headerMap_eq:
  "range_headerMap m acc = acc @ map (\<lambda>kv. \<lparr>Header = \<lparr>Key = fst kv, HeaderValue.Value = snd kv\<rparr>\<rparr>) m"
  by (induction m arbitrary: acc) simp_all

lemma range_headers_eq:
  "range_headers hs acc = acc @ map (\<lambda>kv. \<lparr>Header = \<lparr>Key = fst kv, HeaderValue.Value = snd kv\<rparr>\<rparr>) (concat hs)"
  by (induction hs arbitrary: acc) (simp_all add: range_headerMap_eq)

lemma denied_headers_deniedResponse:
  "denied_headers (deniedResponse r) =
     Some (concat (case AuthResult.Headers r of None \<Rightarrow> [] | Some hs \<Rightarrow> hs)
           @ [(X_EXT_AUTH_REASON_HEADER, Message r)])"
  by (simp add: denied_headers_def deniedResponse_def buildResponseHeadersWithReason_def
      buildResponseHeaders_def range_headers_eq comp_def Let_def split: option.splits)


lemma request_Host_request_for_host: "request_Host (request_for_host host) = Some host"
  by (simp add: request_Host_def request_for_host_def)

lemma cache_lookups_append:
  "cache_lookups (xs @ ys) = cache_lookups xs @ cache_lookups ys"
  by (induction xs) (simp_all split: service_event.splits)

lemma pipeline_configs_append:
  "pipeline_configs (xs @ ys) = pipeline_configs xs @ pipeline_configs ys"
  by (induction xs) (simp_all split: service_event.splits)

lemma pipeline_runs_append:
  "pipeline_runs (xs @ ys) = pipeline_runs xs + pipeline_runs ys"
  by (induction xs) (simp_all split: service_event.splits)

lemma successResponse_log:
  "cache_lookups (fst (successResponse env r)) = []"
  "pipeline_configs (fst (successResponse env r)) = []"
  by (simp_all add: successResponse_def split: sum.splits)

lemma denied_status_deniedResponse:
  "denied_status (deniedResponse r) = Some (map_index statusCodeMapping (AuthResult.Code r))"
  by (simp add: denied_status_def deniedResponse_def Let_def)

lemmas rpc_Code_defs =
  rpc_OK_def rpc_NOT_FOUND_def rpc_PERMISSION_DENIED_def rpc_FAILED_PRECONDITION_def
  rpc_UNAUTHENTICATED_def

lemmas StatusCode_defs =
  StatusCode_Empty_def StatusCode_BadRequest_def StatusCode_Unauthorized_def
  StatusCode_Forbidden_def StatusCode_NotFound_def

lemma map_index_statusCodeMapping:
  "map_index statusCodeMapping code =
     (if code = rpc_FAILED_PRECONDITION then StatusCode_BadRequest
      else if code = rpc_NOT_FOUND then StatusCode_NotFound
      else if code = rpc_UNAUTHENTICATED then StatusCode_Unauthorized
      else if code = rpc_PERMISSION_DENIED then StatusCode_Forbidden
      else StatusCode_Empty)"
  by (simp add: map_index_def statusCodeMapping_def rpc_Code_defs StatusCode_defs)


lemma Check_lookup_hit:
  "Get (Cache self) host = Some config \<Longrightarrow>
     Check_lookup self host = ([Cache_Get host], Return (Some config))"
  by (simp add: Check_lookup_def)

lemma Check_lookup_plain_miss:
  "Get (Cache self) host = None \<Longrightarrow> \<not> strings_Contains host '':'' \<Longrightarrow>
     Check_lookup self host = ([Cache_Get host], Return None)"
  by (simp add: Check_lookup_def)

lemma Check_lookup_retry:
  assumes "Get (Cache self) host = None" and "strings_Contains host '':''"
  shows "Check_lookup self host =
           ([Cache_Get host, Cache_Get (before_colon host)],
            Return (Get (Cache self) (before_colon host)))"
proof -
  from assms(2) have "CHR '':'' \<in> set host"
    by (simp add: strings_Contains_colon)
  then obtain rest where "strings_Split host '':'' = before_colon host # rest"
    using strings_Split_colon by blast
  with assms show ?thesis
    by (simp add: Check_lookup_def)
qed

lemma before_colon_append:
  assumes "\<not> strings_Contains h '':''"
  shows "before_colon (h @ '':'' @ p) = h"
proof -
  from assms have "\<And>c. c \<in> set h \<Longrightarrow> c \<noteq> CHR '':''"
    by (auto simp: strings_Contains_colon)
  then have "takeWhile (\<lambda>c. c \<noteq> CHR '':'') (h @ '':'' @ p) =
      h @ takeWhile (\<lambda>c. c \<noteq> CHR '':'') ('':'' @ p)"
    by (rule takeWhile_append2)
  then show ?thesis
    by (simp add: before_colon_def)
qed

lemma Check_serialized:
  fixes env :: "('cfg, 'md, 'st) service_env" and gets :: "('cfg, 'md) service_event list"
  assumes "json_MarshalIndent env req = Inr reqJSON"
    and "request_Host req = Some host"
    and "Check_lookup self host = (gets, Return apiConfig)"
  shows "cache_lookups (fst (Check env self ctx req)) = cache_lookups gets"
    and "pipeline_configs (fst (Check env self ctx req)) =
           pipeline_configs gets @ (case apiConfig of None \<Rightarrow> [] | Some config \<Rightarrow> [config])"
  using assms
  by (simp_all add: Check_def Let_def NewAuthPipeline_def cache_lookups_append
      pipeline_configs_append successResponse_log case_prod_beta split: option.splits)

lemma Check_not_serialized:
  "json_MarshalIndent env req = Inl err \<Longrightarrow> fst (Check env self ctx req) = []"
  by (simp add: Check_def)

subsection \<open>Unknown hosts\<close>

text \<open>
  C1, as amended. For every check request that the handler could serialize for its log
  line and whose host has no registered configuration (looked up exactly and, when the
  host contains a colon, again under the substring before the first colon), \<open>Check\<close>
  returns a denied response with code \<open>NOT_FOUND\<close>, HTTP status 404 and the single
  header \<open>X-Ext-Auth-Reason: Service not found\<close>, and no pipeline is constructed or
  evaluated.
\<close>

theorem Check_unknown_host_denied:
  fixes env :: "('cfg, 'md, 'st) service_env"
  assumes "json_MarshalIndent env req = Inr reqJSON"
    and "request_Host req = Some host"
    and "Get (Cache self) host = None"
    and "strings_Contains host '':'' \<longrightarrow> Get (Cache self) (before_colon host) = None"
  shows "\<exists>resp. snd (Check env self ctx req) = Return resp
           \<and> rpcstatus_Status.Code (CheckResponse.Status resp) = rpc_NOT_FOUND
           \<and> denied_status resp = Some 404
           \<and> denied_headers resp = Some [(''X-Ext-Auth-Reason'', ''Service not found'')]
           \<and> pipeline_runs (fst (Check env self ctx req)) = 0"
proof -
  let ?notFound = "\<lparr>AuthResult.Code = rpc_NOT_FOUND, Message = RESPONSE_MESSAGE_SERVICE_NOT_FOUND,
      AuthResult.Headers = None, Metadata = None\<rparr> :: 'md AuthResult"
  have "\<exists>gets. (Check_lookup self host :: ('cfg, 'md) service_event list \<times> _) = (gets, Return None)
      \<and> pipeline_runs gets = 0"
  proof (cases "strings_Contains host '':''")
    case True
    with assms(3,4) show ?thesis
      by (simp add: Check_lookup_retry)
  next
    case False
    with assms(3) show ?thesis
      by (simp add: Check_lookup_plain_miss)
  qed
  then obtain gets :: "('cfg, 'md) service_event list"
    where gets: "Check_lookup self host = (gets, Return None)" "pipeline_runs gets = 0"
    by blast
  with assms(1,2) have check: "Check env self ctx req =
      ([Log_Info_reqJSON reqJSON] @ gets, Return (deniedResponse ?notFound))"
    by (simp add: Check_def)
  have "rpcstatus_Status.Code (CheckResponse.Status (deniedResponse ?notFound :: 'st CheckResponse))
      = rpc_NOT_FOUND"
    by (simp add: deniedResponse_def)
  moreover have "denied_status (deniedResponse ?notFound :: 'st CheckResponse) = Some 404"
    by (simp add: denied_status_deniedResponse map_index_statusCodeMapping rpc_Code_defs
        StatusCode_defs)
  moreover have "denied_headers (deniedResponse ?notFound :: 'st CheckResponse) =
      Some [(''X-Ext-Auth-Reason'', ''Service not found'')]"
    by (simp add: denied_headers_deniedResponse X_EXT_AUTH_REASON_HEADER_def
        RESPONSE_MESSAGE_SERVICE_NOT_FOUND_def)
  moreover have "pipeline_runs ([Log_Info_reqJSON reqJSON] @ gets) = 0"
    using gets(2) by simp
  ultimately show ?thesis
    unfolding check by simp
qed

text \<open>The theorem at the host \<open>b:80\<close>, with a cache that only knows \<open>a\<close>.\<close>

theorem Check_unknown_host_denied_witness:
  "json_MarshalIndent serializing_env (request_for_host ''b:80'') = Inr ''{}''
   \<and> request_Host (request_for_host ''b:80'') = Some ''b:80''
   \<and> Get (Cache (service_with [(''a'', 1)])) ''b:80'' = None
   \<and> strings_Contains ''b:80'' '':''
   \<and> Get (Cache (service_with [(''a'', 1)])) (before_colon ''b:80'') = None
   \<and> (\<exists>resp. snd (Check serializing_env (service_with [(''a'', 1)]) live_ctx
                   (request_for_host ''b:80'')) = Return resp
           \<and> rpcstatus_Status.Code (CheckResponse.Status resp) = rpc_NOT_FOUND
           \<and> denied_status resp = Some 404
           \<and> denied_headers resp = Some [(''X-Ext-Auth-Reason'', ''Service not found'')]
           \<and> pipeline_runs (fst (Check serializing_env (service_with [(''a'', 1)]) live_ctx
                   (request_for_host ''b:80''))) = 0)"
  using Check_unknown_host_denied [of serializing_env "request_for_host ''b:80''" "''{}''"
      "''b:80''" "service_with [(''a'', 1)]" live_ctx]
  by (simp add: serializing_env_def request_Host_request_for_host service_with_def
      before_colon_def strings_Contains_def strings_HasPrefix_def)

text \<open>
  C1 as stated does not hold: when \<open>json.MarshalIndent\<close> fails on the request, the
  handler returns before it reads the host, and a request for an unknown host is denied
  with \<open>FAILED_PRECONDITION\<close> and status 400 instead.
\<close>

theorem Check_unknown_host_unserializable:
  "request_Host (request_for_host ''example.com'') = Some ''example.com''
   \<and> Get (Cache (service_with [])) ''example.com'' = None
   \<and> \<not> strings_Contains ''example.com'' '':''
   \<and> Check unserializable_env (service_with []) live_ctx (request_for_host ''example.com'')
      = ([], Return
           \<lparr>CheckResponse.Status = \<lparr>rpcstatus_Status.Code = rpc_FAILED_PRECONDITION\<rparr>,
            HttpResponse = CheckResponse_DeniedResponse
              \<lparr>DeniedHttpResponse.Status = \<lparr>HttpStatus.Code = 400\<rparr>,
               DeniedHttpResponse.Headers =
                 [\<lparr>Header = \<lparr>Key = ''X-Ext-Auth-Reason'',
                              HeaderValue.Value = ''Invalid request''\<rparr>\<rparr>]\<rparr>,
            DynamicMetadata = None\<rparr>)
   \<and> rpc_FAILED_PRECONDITION \<noteq> rpc_NOT_FOUND"
  by (simp add: request_Host_request_for_host service_with_def strings_Contains_def
      strings_HasPrefix_def Check_def unserializable_env_def deniedResponse_def
      map_index_statusCodeMapping rpc_Code_defs StatusCode_defs
      buildResponseHeadersWithReason_def buildResponseHeaders_def
      X_EXT_AUTH_REASON_HEADER_def RESPONSE_MESSAGE_INVALID_REQUEST_def)

subsection \<open>Hosts with a port suffix\<close>

text \<open>
  C2, as amended. For every host \<open>h\<close> that contains no colon and has a registered
  configuration, and every port string \<open>p\<close> such that no configuration is registered
  under \<open>h:p\<close> itself, the lookup step of \<open>Check\<close> resolves \<open>h:p\<close> to the
  configuration it resolves \<open>h\<close> to: the exact lookup misses, and the retry under the
  substring before the first colon finds the configuration of \<open>h\<close>.
\<close>

theorem Check_lookup_port_suffix:
  fixes self :: "'cfg AuthService"
  assumes "Get (Cache self) h = Some config"
    and "\<not> strings_Contains h '':''"
    and "Get (Cache self) (h @ '':'' @ p) = None"
  shows "snd (Check_lookup self (h @ '':'' @ p) :: ('cfg, 'md) service_event list \<times> _)
           = Return (Some config)
         \<and> snd (Check_lookup self h :: ('cfg, 'md) service_event list \<times> _)
           = Return (Some config)"
proof -
  have contains: "strings_Contains (h @ '':'' @ p) '':''"
    by (simp add: strings_Contains_colon)
  have stripped: "before_colon (h @ '':'' @ p) = h"
    using assms(2) by (rule before_colon_append)
  have "(Check_lookup self (h @ '':'' @ p) :: ('cfg, 'md) service_event list \<times> _) =
      ([Cache_Get (h @ '':'' @ p), Cache_Get (before_colon (h @ '':'' @ p))],
       Return (Get (Cache self) (before_colon (h @ '':'' @ p))))"
    using assms(3) contains by (rule Check_lookup_retry)
  then have "snd (Check_lookup self (h @ '':'' @ p) :: ('cfg, 'md) service_event list \<times> _)
      = Return (Some config)"
    by (simp only: stripped assms(1) snd_conv)
  moreover have "snd (Check_lookup self h :: ('cfg, 'md) service_event list \<times> _)
      = Return (Some config)"
    using assms(1) by (simp add: Check_lookup_hit)
  ultimately show ?thesis ..
qed

text \<open>The theorem at the host \<open>a\<close> and the port \<open>8080\<close>.\<close>

theorem Check_lookup_port_suffix_witness:
  "Get (Cache (service_with [(''a'', 1)])) ''a'' = Some 1
   \<and> \<not> strings_Contains ''a'' '':''
   \<and> Get (Cache (service_with [(''a'', 1)])) (''a'' @ '':'' @ ''8080'') = None
   \<and> snd (Check_lookup (service_with [(''a'', 1)]) (''a'' @ '':'' @ ''8080'')
          :: (nat, unit) service_event list \<times> _) = Return (Some 1)
   \<and> snd (Check_lookup (service_with [(''a'', 1)]) ''a''
          :: (nat, unit) service_event list \<times> _) = Return (Some 1)"
  using Check_lookup_port_suffix [of "service_with [(''a'', 1)]" "''a''" 1 "''8080''",
      where ?'md = unit]
  by (simp add: service_with_def strings_Contains_def strings_HasPrefix_def)

text \<open>
  C2 as stated does not hold. With \<open>a\<close> and \<open>a:80\<close> both registered, \<open>a:80\<close>
  resolves to its own configuration, not to that of \<open>a\<close>. With only \<open>a:80\<close>
  registered, \<open>a:80:90\<close> is retried under \<open>a\<close>, the substring before the first
  colon, and resolves to nothing.
\<close>

theorem Check_lookup_port_suffix_differs:
  "Get (Cache (service_with [(''a'', 1), (''a:80'', 2)])) ''a'' = Some 1
   \<and> snd (Check_lookup (service_with [(''a'', 1), (''a:80'', 2)]) (''a'' @ '':'' @ ''80'')
          :: (nat, unit) service_event list \<times> _) = Return (Some 2)
   \<and> snd (Check_lookup (service_with [(''a'', 1), (''a:80'', 2)]) ''a''
          :: (nat, unit) service_event list \<times> _) = Return (Some 1)
   \<and> Get (Cache (service_with [(''a:80'', 2)])) ''a:80'' = Some 2
   \<and> snd (Check_lookup (service_with [(''a:80'', 2)]) (''a:80'' @ '':'' @ ''90'')
          :: (nat, unit) service_event list \<times> _) = Return None
   \<and> snd (Check_lookup (service_with [(''a:80'', 2)]) ''a:80''
          :: (nat, unit) service_event list \<times> _) = Return (Some 2)"
  by (simp add: service_with_def Check_lookup_def strings_Contains_def strings_HasPrefix_def
      strings_Split.simps)

subsection \<open>Precedence of the exact match\<close>

text \<open>
  C10. The exact match takes precedence: when a configuration is registered under the
  full host string of a request, the lookup step makes the exact call of \<open>Get\<close> and no
  other, and resolves to that configuration. So no call of \<open>Check\<close> on such a request
  consults the cache under another key or builds a pipeline with another configuration,
  and every call that gets past the serialization of the request makes exactly that one
  lookup and builds its pipeline with exactly that configuration.
\<close>

theorem Check_exact_match_first:
  fixes env :: "('cfg, 'md, 'st) service_env"
  assumes "request_Host req = Some host"
    and "Get (Cache self) host = Some config"
  shows "(Check_lookup self host :: ('cfg, 'md) service_event list \<times> _)
           = ([Cache_Get host], Return (Some config))
         \<and> set (cache_lookups (fst (Check env self ctx req))) \<subseteq> {host}
         \<and> set (pipeline_configs (fst (Check env self ctx req))) \<subseteq> {config}
         \<and> (\<forall>reqJSON. json_MarshalIndent env req = Inr reqJSON \<longrightarrow>
               cache_lookups (fst (Check env self ctx req)) = [host]
               \<and> pipeline_configs (fst (Check env self ctx req)) = [config])"
proof -
  have lookup: "(Check_lookup self host :: ('cfg, 'md) service_event list \<times> _)
      = ([Cache_Get host], Return (Some config))"
    using assms(2) by (rule Check_lookup_hit)
  have ok: "cache_lookups (fst (Check env self ctx req)) = [host]
      \<and> pipeline_configs (fst (Check env self ctx req)) = [config]"
    if "json_MarshalIndent env req = Inr reqJSON" for reqJSON
    using Check_serialized [OF that assms(1) lookup, of ctx] by simp
  have "set (cache_lookups (fst (Check env self ctx req))) \<subseteq> {host}
      \<and> set (pipeline_configs (fst (Check env self ctx req))) \<subseteq> {config}"
  proof (cases "json_MarshalIndent env req")
    case (Inl err)
    then show ?thesis by (simp add: Check_not_serialized)
  next
    case (Inr reqJSON)
    then show ?thesis using ok by simp
  qed
  with lookup ok show ?thesis by blast
qed

text \<open>
  The theorem at the host \<open>a:80\<close>, with \<open>a\<close> and \<open>a:80\<close> both registered: the
  configuration of \<open>a\<close> is not consulted.
\<close>

theorem Check_exact_match_first_witness:
  "request_Host (request_for_host ''a:80'') = Some ''a:80''
   \<and> Get (Cache (service_with [(''a'', 1), (''a:80'', 2)])) ''a:80'' = Some 2
   \<and> Get (Cache (service_with [(''a'', 1), (''a:80'', 2)])) ''a'' = Some 1
   \<and> json_MarshalIndent serializing_env (request_for_host ''a:80'') = Inr ''{}''
   \<and> (Check_lookup (service_with [(''a'', 1), (''a:80'', 2)]) ''a:80''
        :: (nat, unit) service_event list \<times> _) = ([Cache_Get ''a:80''], Return (Some 2))
   \<and> cache_lookups (fst (Check serializing_env (service_with [(''a'', 1), (''a:80'', 2)])
        live_ctx (request_for_host ''a:80''))) = [''a:80'']
   \<and> pipeline_configs (fst (Check serializing_env (service_with [(''a'', 1), (''a:80'', 2)])
        live_ctx (request_for_host ''a:80''))) = [2]"
  using Check_exact_match_first [of "request_for_host ''a:80''" "''a:80''"
      "service_with [(''a'', 1), (''a:80'', 2)]" 2 serializing_env live_ctx]
  by (simp add: request_Host_request_for_host service_with_def serializing_env_def)

subsection \<open>Statuses of denied responses\<close>

text \<open>
  C3. The mapping from result codes to HTTP statuses used by \<open>deniedResponse\<close> is
  total: \<open>FAILED_PRECONDITION\<close> gives 400, \<open>NOT_FOUND\<close> 404, \<open>UNAUTHENTICATED\<close>
  401, \<open>PERMISSION_DENIED\<close> 403, and every other code gives the zero status
  \<open>StatusCode_Empty\<close>; the function returns a response for every result.
\<close>

theorem deniedResponse_status_total:
  fixes r :: "'md AuthResult"
  defines "status \<equiv> denied_status (deniedResponse r :: 'st CheckResponse)"
  shows "(AuthResult.Code r = rpc_FAILED_PRECONDITION \<longrightarrow> status = Some 400)
   \<and> (AuthResult.Code r = rpc_NOT_FOUND \<longrightarrow> status = Some 404)
   \<and> (AuthResult.Code r = rpc_UNAUTHENTICATED \<longrightarrow> status = Some 401)
   \<and> (AuthResult.Code r = rpc_PERMISSION_DENIED \<longrightarrow> status = Some 403)
   \<and> (AuthResult.Code r \<notin> {rpc_FAILED_PRECONDITION, rpc_NOT_FOUND, rpc_UNAUTHENTICATED,
          rpc_PERMISSION_DENIED} \<longrightarrow> status = Some StatusCode_Empty)"
  unfolding status_def
  by (simp add: denied_status_deniedResponse map_index_statusCodeMapping rpc_Code_defs
      StatusCode_defs)

text \<open>The theorem at the four mapped codes and at \<open>INTERNAL\<close> (13), which is not mapped.\<close>

theorem deniedResponse_status_total_witness:
  "denied_status (deniedResponse (result_with_code 9) :: unit CheckResponse) = Some 400
   \<and> denied_status (deniedResponse (result_with_code 5) :: unit CheckResponse) = Some 404
   \<and> denied_status (deniedResponse (result_with_code 16) :: unit CheckResponse) = Some 401
   \<and> denied_status (deniedResponse (result_with_code 7) :: unit CheckResponse) = Some 403
   \<and> denied_status (deniedResponse (result_with_code 13) :: unit CheckResponse) = Some 0"
  using deniedResponse_status_total [of "result_with_code 9", where ?'st = unit]
    deniedResponse_status_total [of "result_with_code 5", where ?'st = unit]
    deniedResponse_status_total [of "result_with_code 16", where ?'st = unit]
    deniedResponse_status_total [of "result_with_code 7", where ?'st = unit]
    deniedResponse_status_total [of "result_with_code 13", where ?'st = unit]
  by (simp add: result_with_code_def rpc_Code_defs StatusCode_defs)

subsection \<open>Requests that cannot be serialized\<close>

text \<open>
  C8. When \<open>json.MarshalIndent\<close> fails on the inbound request, \<open>Check\<close> returns a
  denied response with code \<open>FAILED_PRECONDITION\<close>, HTTP status 400 and the header
  \<open>X-Ext-Auth-Reason: Invalid request\<close>; it does not panic, and nothing else happens
  (no log line, no cache lookup, no pipeline).
\<close>

theorem Check_unserializable_request:
  fixes env :: "('cfg, 'md, 'st) service_env"
  assumes "json_MarshalIndent env req = Inl err"
  shows "\<exists>resp. Check env self ctx req = ([], Return resp)
           \<and> rpcstatus_Status.Code (CheckResponse.Status resp) = rpc_FAILED_PRECONDITION
           \<and> denied_status resp = Some 400
           \<and> denied_headers resp = Some [(''X-Ext-Auth-Reason'', ''Invalid request'')]"
proof -
  let ?invalid = "\<lparr>AuthResult.Code = rpc_FAILED_PRECONDITION,
      Message = RESPONSE_MESSAGE_INVALID_REQUEST,
      AuthResult.Headers = None, Metadata = None\<rparr> :: 'md AuthResult"
  from assms have "Check env self ctx req = ([], Return (deniedResponse ?invalid))"
    by (simp add: Check_def)
  moreover have "rpcstatus_Status.Code (CheckResponse.Status
      (deniedResponse ?invalid :: 'st CheckResponse)) = rpc_FAILED_PRECONDITION"
    by (simp add: deniedResponse_def)
  moreover have "denied_status (deniedResponse ?invalid :: 'st CheckResponse) = Some 400"
    by (simp add: denied_status_deniedResponse map_index_statusCodeMapping StatusCode_defs)
  moreover have "denied_headers (deniedResponse ?invalid :: 'st CheckResponse) =
      Some [(''X-Ext-Auth-Reason'', ''Invalid request'')]"
    by (simp add: denied_headers_deniedResponse X_EXT_AUTH_REASON_HEADER_def
        RESPONSE_MESSAGE_INVALID_REQUEST_def)
  ultimately show ?thesis by simp
qed

text \<open>The theorem at a request for a registered host whose serialization fails.\<close>

theorem Check_unserializable_request_witness:
  "json_MarshalIndent unserializable_env (request_for_host ''a'')
     = Inl (Foreign ''json: unsupported value: NaN'')
   \<and> Get (Cache (service_with [(''a'', 1)])) ''a'' = Some 1
   \<and> (\<exists>resp. Check unserializable_env (service_with [(''a'', 1)]) live_ctx (request_for_host ''a'')
                 = ([], Return resp)
           \<and> rpcstatus_Status.Code (CheckResponse.Status resp) = rpc_FAILED_PRECONDITION
           \<and> denied_status resp = Some 400
           \<and> denied_headers resp = Some [(''X-Ext-Auth-Reason'', ''Invalid request'')])"
  using Check_unserializable_request [of unserializable_env "request_for_host ''a''"
      "Foreign ''json: unsupported value: NaN''" "service_with [(''a'', 1)]" live_ctx]
  by (simp add: unserializable_env_def service_with_def)

subsection \<open>Headers of denied responses\<close>

text \<open>
  C9. The headers of a denied response are the entries of the result's accumulated
  header maps, in the order of the slice, followed by exactly one
  \<open>X-Ext-Auth-Reason\<close> header that carries the result's message; when the slice is nil
  or empty, that header is the only one.
\<close>

theorem deniedResponse_headers:
  fixes r :: "'md AuthResult"
  defines "rendered \<equiv> denied_headers (deniedResponse r :: 'st CheckResponse)"
  shows "rendered =
     Some (concat (case AuthResult.Headers r of None \<Rightarrow> [] | Some hs \<Rightarrow> hs)
           @ [(''X-Ext-Auth-Reason'', Message r)])
   \<and> (AuthResult.Headers r = None \<or> AuthResult.Headers r = Some [] \<longrightarrow>
        rendered = Some [(''X-Ext-Auth-Reason'', Message r)])"
  unfolding rendered_def
  by (auto simp: denied_headers_deniedResponse X_EXT_AUTH_REASON_HEADER_def)

text \<open>The theorem at a result with two header maps, with a nil slice and with an empty slice.\<close>

theorem deniedResponse_headers_witness:
  "denied_headers (deniedResponse (challenge_result
       (Some [[(''WWW-Authenticate'', ''Bearer realm=a'')], [(''X-A'', ''1''), (''X-B'', ''2'')]]))
     :: unit CheckResponse)
     = Some [(''WWW-Authenticate'', ''Bearer realm=a''), (''X-A'', ''1''), (''X-B'', ''2''),
             (''X-Ext-Auth-Reason'', ''credential not found'')]
   \<and> denied_headers (deniedResponse (challenge_result None) :: unit CheckResponse)
     = Some [(''X-Ext-Auth-Reason'', ''credential not found'')]
   \<and> denied_headers (deniedResponse (challenge_result (Some [])) :: unit CheckResponse)
     = Some [(''X-Ext-Auth-Reason'', ''credential not found'')]"
  using deniedResponse_headers [of "challenge_result
       (Some [[(''WWW-Authenticate'', ''Bearer realm=a'')], [(''X-A'', ''1''), (''X-B'', ''2'')]])",
       where ?'st = unit]
    deniedResponse_headers [of "challenge_result None", where ?'st = unit]
    deniedResponse_headers [of "challenge_result (Some [])", where ?'st = unit]
  by (simp add: challenge_result_def)



section \<open>Properties of the generic HTTP evaluator\<close>

subsection \<open>Auxiliary facts\<close>

lemma Header_Values_Set: "Header_Values env (Header_Set env header key v) key = [v]"
  by (simp add: Header_Values_def Header_Set_def update_conv')

lemma range_Headers_keeps:
  "Req_Body (range_Headers env authJSON headers req) = Req_Body req"
  "Req_Method (range_Headers env authJSON headers req) = Req_Method req"
  "Req_URL (range_Headers env authJSON headers req) = Req_URL req"
  by (induction headers arbitrary: req) simp_all

lemma http_NewRequestWithContext_body:
  "http_NewRequestWithContext env ctx method url body = Inr req \<Longrightarrow> Req_Body req = body"
  by (auto simp: http_NewRequestWithContext_def split: option.splits)

lemma BuildRequestWithCredentials_body:
  "BuildRequestWithCredentials env creds ctx url method secret body = Inr req \<Longrightarrow>
     Req_Body req = body"
  by (auto simp: BuildRequestWithCredentials_def http_NewRequestWithContext_def
      split: option.splits sum.splits)

lemma requests_sent_append:
  "requests_sent (xs @ ys) = requests_sent xs @ requests_sent ys"
  by (induction xs) (simp_all split: http_event.splits)


subsection \<open>Cancelled scopes\<close>

text \<open>
  C7. When the context handed to \<open>Call\<close> is already cancelled or expired, the
  evaluator returns a failure at once: nothing is logged and no request is sent.
\<close>

theorem Call_cancelled_scope:
  assumes "ctx_done ctx"
  shows "Call env h pipeline ctx = ([], Inl Context_done)"
  using assms by (simp add: Call_def CheckContext_def)

text \<open>The theorem at a context that is done.\<close>

theorem Call_cancelled_scope_witness:
  "ctx_done done_ctx
   \<and> Call (respond_with (Inr (json_response [Decodes [(''x'', 1)]])))
        (evaluator ''GET'' ''text/plain'') pipeline0 done_ctx = ([], Inl Context_done)"
  using Call_cancelled_scope [of done_ctx "respond_with (Inr (json_response [Decodes [(''x'', 1)]]))"
      "evaluator ''GET'' ''text/plain''" pipeline0]
  by (simp add: done_ctx_def)

subsection \<open>Unsupported configurations\<close>

text \<open>
  C6, as amended. For every invocation whose context is not already cancelled or
  expired: when the configured method is neither \<open>GET\<close> nor \<open>POST\<close>, and when it is
  \<open>POST\<close> with parameters (no body template is configured) and the configured content
  type is neither \<open>application/x-www-form-urlencoded\<close> nor \<open>application/json\<close>, the
  evaluator returns the configuration error (\<open>unsupported method\<close>, respectively
  \<open>unsupported content-type\<close>); it does not panic, and no request is sent.
\<close>

theorem Call_unsupported_configuration:
  assumes "\<not> ctx_done ctx"
    and "(Method h \<noteq> ''GET'' \<and> Method h \<noteq> ''POST'')
         \<or> (Method h = ''POST'' \<and> Body h = None
              \<and> ContentType h \<noteq> ''application/x-www-form-urlencoded''
              \<and> ContentType h \<noteq> ''application/json'')"
  shows "Call env h pipeline ctx =
           ([], Inl (Errorf (if Method h = ''POST'' then ''unsupported content-type''
                             else ''unsupported method'')))"
  using assms
  by (auto simp: Call_def CheckContext_def Call_switch_def buildRequestBody_def Let_def)

text \<open>The theorem at the method \<open>PUT\<close>, and at \<open>POST\<close> with the content type \<open>text/xml\<close>.\<close>

theorem Call_unsupported_configuration_witness:
  "\<not> ctx_done live_ctx
   \<and> Method (evaluator ''PUT'' ''application/json'') = ''PUT''
   \<and> Call (respond_with (Inr (json_response []))) (evaluator ''PUT'' ''application/json'')
        pipeline0 live_ctx = ([], Inl (Errorf ''unsupported method''))
   \<and> Method (evaluator ''POST'' ''text/xml'') = ''POST''
   \<and> Body (evaluator ''POST'' ''text/xml'') = None
   \<and> ContentType (evaluator ''POST'' ''text/xml'') = ''text/xml''
   \<and> Call (respond_with (Inr (json_response []))) (evaluator ''POST'' ''text/xml'')
        pipeline0 live_ctx = ([], Inl (Errorf ''unsupported content-type''))"
  using Call_unsupported_configuration [of live_ctx "evaluator ''PUT'' ''application/json''"
      "respond_with (Inr (json_response []))" pipeline0]
    Call_unsupported_configuration [of live_ctx "evaluator ''POST'' ''text/xml''"
      "respond_with (Inr (json_response []))" pipeline0]
  by (simp add: live_ctx_def evaluator_def)

text \<open>
  C6 as stated does not hold: the context is inspected before the method, so an
  invocation with the method \<open>PUT\<close> and a context that is done fails with the error of
  the context, not with a configuration error.
\<close>

theorem Call_unsupported_method_cancelled:
  "Method (evaluator ''PUT'' ''application/json'') = ''PUT''
   \<and> Call (respond_with (Inr (json_response []))) (evaluator ''PUT'' ''application/json'')
        pipeline0 done_ctx = ([], Inl Context_done)
   \<and> Context_done \<noteq> Errorf ''unsupported method''"
  by (simp add: evaluator_def done_ctx_def Call_def CheckContext_def)

subsection \<open>GET requests\<close>

lemma Call_request_body:
  "Call_request env h ctx authJSON endpoint contentType requestBody = Inr req \<Longrightarrow>
     Req_Body req = requestBody"
  by (auto simp: Call_request_def Let_def range_Headers_keeps split: option.splits sum.splits
      dest: http_NewRequestWithContext_body BuildRequestWithCredentials_body)

lemma Call_request_content_type:
  "Call_request env h ctx authJSON endpoint contentType requestBody = Inr req \<Longrightarrow>
     Header_Values env (Req_Header req) ''Content-Type'' = [contentType]"
  by (auto simp: Call_request_def Let_def Header_Values_Set split: sum.splits)

lemma requests_sent_Call_response: "requests_sent (fst (Call_response resp)) = []"
  by (simp add: Call_response_def split: sum.splits)

text \<open>
  The requests that \<open>Call\<close> sends: none when the context is done, the switch fails or the
  request cannot be built, and otherwise the one request that \<open>Call_request\<close> built.
\<close>

lemma requests_sent_Call:
  "requests_sent (fst (Call env h pipeline ctx)) =
     (if ctx_done ctx then []
      else case Call_switch env h (GetAuthorizationJSON pipeline) of
             Inl err \<Rightarrow> []
           | Inr (contentType, requestBody) \<Rightarrow>
               (case Call_request env h ctx (GetAuthorizationJSON pipeline)
                       (ReplaceJSONPlaceholders env (Endpoint h) (GetAuthorizationJSON pipeline))
                       contentType requestBody of
                  Inl err \<Rightarrow> []
                | Inr req \<Rightarrow> [req]))"
  by (simp add: Call_def CheckContext_def Let_def requests_sent_append
      requests_sent_Call_response case_prod_beta split: sum.splits)

lemma Call_switch_GET:
  "Method h = ''GET'' \<Longrightarrow> Call_switch env h authJSON = Inr (''text/plain'', None)"
  by (simp add: Call_switch_def)

text \<open>
  C5. When the configured method is \<open>GET\<close>, every request that \<open>Call\<close> hands to the
  HTTP client has no body and carries the content type \<open>text/plain\<close>, whatever content
  type and headers are configured; and \<open>Call\<close> hands exactly one request to the client
  whenever the context is not done and the request can be built.
\<close>

theorem Call_GET_request:
  assumes "Method h = ''GET''"
  shows "(\<forall>req \<in> set (requests_sent (fst (Call env h pipeline ctx))).
            Req_Body req = None
            \<and> Header_Values env (Req_Header req) ''Content-Type'' = [''text/plain''])
         \<and> (\<not> ctx_done ctx
              \<and> (\<exists>req. Call_request env h ctx (GetAuthorizationJSON pipeline)
                     (ReplaceJSONPlaceholders env (Endpoint h) (GetAuthorizationJSON pipeline))
                     ''text/plain'' None = Inr req) \<longrightarrow>
              length (requests_sent (fst (Call env h pipeline ctx))) = 1)"
  using assms
  by (auto simp: requests_sent_Call Call_switch_GET split: sum.splits
      dest: Call_request_body Call_request_content_type)

text \<open>
  The theorem at an evaluator configured with the content type \<open>application/json\<close> and
  a header \<open>Content-Type: application/xml\<close>: the one request sent has no body and the
  content type \<open>text/plain\<close>.
\<close>

theorem Call_GET_request_witness:
  "Method (evaluator ''GET'' ''application/json'') = ''GET''
   \<and> ContentType (evaluator ''GET'' ''application/json'') = ''application/json''
   \<and> \<not> ctx_done live_ctx
   \<and> requests_sent (fst (Call (respond_with (Inr (json_response [Decodes [(''x'', 1)]])))
        (evaluator ''GET'' ''application/json'') pipeline0 live_ctx))
      = [\<lparr>Req_Method = ''GET'', Req_URL = ''http://metadata.local/info'',
          Req_Header = [(''Content-Type'', [''text/plain'']), (''X-Trace'', [''1''])],
          Req_Body = None\<rparr>]
   \<and> Header_Values (respond_with (Inr (json_response [Decodes [(''x'', 1)]])))
        [(''Content-Type'', [''text/plain'']), (''X-Trace'', [''1''])] ''Content-Type''
      = [''text/plain'']"
  using Call_GET_request [of "evaluator ''GET'' ''application/json''"
      "respond_with (Inr (json_response [Decodes [(''x'', 1)]]))" pipeline0 live_ctx]
  by (simp add: evaluator_def live_ctx_def respond_with_def json_response_def pipeline0_def
      Call_def CheckContext_def Call_switch_def Call_request_def Call_response_def
      http_NewRequestWithContext_def Header_Set_def Header_Values_def
      Header_index_def strings_Contains_def strings_HasPrefix_def Let_def)

subsection \<open>JSON responses\<close>

lemma decode_loop_nonempty:
  "decode_loop items elements = Inr es \<Longrightarrow> 0 < length es"
  by (induction items elements rule: decode_loop.induct) (auto simp: Let_def split: if_splits)

lemma decoder_More_Decodes:
  "decoder_More (map Decodes objs @ rest) = (if objs = [] then decoder_More rest else True)"
  by (cases objs) simp_all

lemma decode_loop_objects:
  "objs \<noteq> [] \<Longrightarrow> decode_loop (map Decodes objs) elements = Inr (elements @ objs)"
proof (induction objs arbitrary: elements)
  case Nil
  then show ?case by simp
next
  case (Cons obj objs)
  show ?case
  proof (cases objs)
    case Nil
    then show ?thesis by simp
  next
    case (Cons obj' objs')
    with Cons.IH [of "elements @ [obj]"] show ?thesis by simp
  qed
qed

lemma decode_loop_failure:
  "decode_loop (map Decodes objs @ Fails err True # rest) elements = Inl err"
  by (induction objs arbitrary: elements) (simp_all add: decoder_More_Decodes)

lemma Call_response_never_nil: "snd (Call_response resp) \<noteq> Inr Nil_value"
proof (cases "decode_loop (Body_items (Resp_Body resp)) []")
  case (Inl err)
  then show ?thesis
    by (simp add: Call_response_def split: sum.splits)
next
  case (Inr es)
  from decode_loop_nonempty [OF Inr] have "length es = 1 \<or> 1 < length es"
    by arith
  with Inr show ?thesis
    by (auto simp: Call_response_def split: sum.splits)
qed

lemma Call_never_nil: "snd (Call env h pipeline ctx) \<noteq> Inr Nil_value"
  by (simp add: Call_def Let_def case_prod_beta Call_response_never_nil
      split: option.splits sum.splits)

text \<open>
  Input on which \<open>Decode\<close> fails yields that failure when it is the first value or
  when \<open>More\<close> holds in front of it. After a decoded object, input in front of which
  \<open>More\<close> does not hold (a closing bracket or brace, a read error) ends the loop and is
  left unread.
\<close>

lemma Call_response_JSON_unread:
  assumes "strings_Contains
      (strings_Join (Header_index (Resp_Header resp) ''Content-Type'') '';'') ''application/json''"
    and "Body_items (Resp_Body resp) = Decodes obj # Fails err False # rest"
  shows "Call_response resp = ([Body_Close], Inr (Object obj))"
  using assms by (simp add: Call_response_def)

lemma Call_response_JSON_failure:
  assumes "strings_Contains
      (strings_Join (Header_index (Resp_Header resp) ''Content-Type'') '';'') ''application/json''"
    and "Body_items (Resp_Body resp) = map Decodes objs @ Fails err True # rest"
  shows "Call_response resp = ([Body_Close], Inl err)"
  using assms by (simp add: Call_response_def decode_loop_failure)

text \<open>
  C4, on the code. For a response whose content type mentions \<open>application/json\<close> and
  whose body is a sequence of values that decode into objects: exactly one object yields
  that object, more than one yields the sequence of the objects in order, and no object
  at all (an empty body) yields the failure \<open>io.EOF\<close>, not an absent result: \<open>Decode\<close>
  is called before \<open>More\<close> is asked, so the branch that returns nil is never reached
  (\<open>Call_never_nil\<close>). Input on which \<open>Decode\<close> fails yields that failure
  (\<open>Call_response_JSON_failure\<close>).
\<close>

theorem Call_response_JSON_objects:
  assumes "strings_Contains
      (strings_Join (Header_index (Resp_Header resp) ''Content-Type'') '';'') ''application/json''"
    and "Body_items (Resp_Body resp) = map Decodes objs"
  shows "Call_response resp =
           ([Body_Close],
            case objs of
              [] \<Rightarrow> Inl io_EOF
            | [obj] \<Rightarrow> Inr (Object obj)
            | _ \<Rightarrow> Inr (Elements objs))"
proof (cases objs)
  case Nil
  with assms show ?thesis by (simp add: Call_response_def)
next
  case (Cons obj objs')
  then have "decode_loop (map Decodes objs) [] = Inr objs"
    using decode_loop_objects [of objs "[]"] by simp
  with assms Cons show ?thesis
    by (cases objs') (simp_all add: Call_response_def)
qed


text \<open>
  The theorem at an empty body, at one object and at two objects, and \<open>Call\<close> itself on
  a \<open>GET\<close> whose response has the content type \<open>application/json\<close> and an empty body.
\<close>

theorem Call_JSON_bodies:
  "strings_Contains
     (strings_Join (Header_index (Resp_Header (json_response [])) ''Content-Type'') '';'')
     ''application/json''
   \<and> Body_items (Resp_Body (json_response [])) = map Decodes []
   \<and> Call_response (json_response []) = ([Body_Close], Inl io_EOF)
   \<and> Call_response (json_response [Decodes [(''x'', 1)]])
      = ([Body_Close], Inr (Object [(''x'', 1)]))
   \<and> Call_response (json_response [Decodes [(''x'', 1)], Decodes [(''y'', 2)]])
      = ([Body_Close], Inr (Elements [[(''x'', 1)], [(''y'', 2)]]))
   \<and> Call (respond_with (Inr (json_response []))) (evaluator ''GET'' ''text/plain'') pipeline0 live_ctx
      = ([Do \<lparr>Req_Method = ''GET'', Req_URL = ''http://metadata.local/info'',
               Req_Header = [(''Content-Type'', [''text/plain'']), (''X-Trace'', [''1''])],
               Req_Body = None\<rparr>, Body_Close],
         Inl io_EOF)"
proof -
  have json: "strings_Contains
     (strings_Join (Header_index (Resp_Header (json_response items)) ''Content-Type'') '';'')
     ''application/json''" for items
    by (simp add: json_response_def Header_index_def strings_Contains_def strings_HasPrefix_def)
  have items: "Body_items (Resp_Body (json_response (map Decodes objs))) = map Decodes objs"
    for objs
    by (simp add: json_response_def)
  from Call_response_JSON_objects [OF json items, of "[]"]
  have none: "Call_response (json_response []) = ([Body_Close], Inl io_EOF)"
    by simp
  from Call_response_JSON_objects [OF json items, of "[[(''x'', 1)]]"]
  have one: "Call_response (json_response [Decodes [(''x'', 1)]])
      = ([Body_Close], Inr (Object [(''x'', 1)]))"
    by simp
  from Call_response_JSON_objects [OF json items, of "[[(''x'', 1)], [(''y'', 2)]]"]
  have two: "Call_response (json_response [Decodes [(''x'', 1)], Decodes [(''y'', 2)]])
      = ([Body_Close], Inr (Elements [[(''x'', 1)], [(''y'', 2)]]))"
    by simp
  have "Call (respond_with (Inr (json_response []))) (evaluator ''GET'' ''text/plain'')
        pipeline0 live_ctx
      = ([Do \<lparr>Req_Method = ''GET'', Req_URL = ''http://metadata.local/info'',
               Req_Header = [(''Content-Type'', [''text/plain'']), (''X-Trace'', [''1''])],
               Req_Body = None\<rparr>, Body_Close],
         Inl io_EOF)"
    by (simp add: none evaluator_def live_ctx_def respond_with_def pipeline0_def
      Call_def CheckContext_def Call_switch_def Call_request_def
      http_NewRequestWithContext_def Header_Set_def Let_def)
  with json [of "[]"] items [of "[]"] none one two show ?thesis
    by simp
qed

end
